theory Spec2Isabelle
  imports Complex_Main "HOL-Library.Word"
begin

unbundle bit_operations_syntax

section \<open>Machine types of \<^verbatim>\<open>squish/core.pyx\<close>\<close>

text \<open>
  The module's C types \<^verbatim>\<open>INT_T\<close>, \<^verbatim>\<open>FLOAT_T\<close> and \<^verbatim>\<open>Pair\<close> are declared in
  \<^verbatim>\<open>core.pxd\<close>, which is not part of the sources at hand. They are parameters of
  the model:
  \<^item> \<^verbatim>\<open>INT_T\<close> is a signed machine integer of some width: a word \<open>'w word\<close>, read
    through \<open>sint\<close>;
  \<^item> \<^verbatim>\<open>sizeof(INT_T)\<close> is its size in bytes, an eighth of its width;
  \<^item> \<^verbatim>\<open>Pair\<close> is a pair of \<^verbatim>\<open>INT_T\<close>, read with \<^verbatim>\<open>[0]\<close> and \<^verbatim>\<open>[1]\<close>;
  \<^item> \<^verbatim>\<open>FLOAT_T\<close> is a type \<open>'f\<close> of which only the operations \<open>+\<close>, \<open>-\<close>, \<open>*\<close>,
    \<open>/\<close> and unary minus are used, and of which nothing is assumed: every theorem
    about vectors and matrices below holds for any arithmetic, rounding or not.

  The constructors \<^verbatim>\<open>_IArray\<close>, \<^verbatim>\<open>_FArray\<close>, \<^verbatim>\<open>_BitSet\<close>, \<^verbatim>\<open>_Vector2D\<close> and
  \<^verbatim>\<open>_Matrix2x2\<close> are \<open>new_IArray\<close>, ..., \<open>new_Matrix2x2\<close> here; every other
  function keeps its name.
\<close>

type_synonym 'w Pair = "'w word \<times> 'w word"

definition sizeof_INT_T :: "'w::len word \<Rightarrow> nat" where
  "sizeof_INT_T w = LENGTH('w) div 8"

text \<open>
  A read or write through a pointer that leaves the allocated buffer is undefined
  behaviour in C. The model makes it a value, \<open>OutOfBuffer\<close>, beside the
  \<^verbatim>\<open>IndexError\<close> the bounds check raises, whose message prints the shape.
\<close>

datatype 's error = IndexError 's | OutOfBuffer

section \<open>IArray and FArray\<close>

text \<open>
  Both structs hold a pointer \<^verbatim>\<open>arr\<close> to a buffer and a \<^verbatim>\<open>shape\<close>. The buffer is the
  list of its elements; its length is the allocated length. The type parameter \<open>'i\<close>
  stands for \<^verbatim>\<open>INT_T\<close> and is always a word type below. The two function pointers
  \<^verbatim>\<open>get\<close> and \<^verbatim>\<open>set\<close> that the constructors attach are the functions of this
  section.
\<close>

record 'i IArray =
  arr :: "'i list"
  shape :: "'i \<times> 'i"

record ('i, 'f) FArray =
  arr :: "'f list"
  shape :: "'i \<times> 'i"

definition new_IArray :: "'w word list \<Rightarrow> 'w Pair \<Rightarrow> 'w word IArray" where
  "new_IArray buf shp = \<lparr>IArray.arr = buf, shape = shp\<rparr>"

definition new_FArray :: "'f list \<Rightarrow> 'w Pair \<Rightarrow> ('w word, 'f) FArray" where
  "new_FArray buf shp = \<lparr>FArray.arr = buf, shape = shp\<rparr>"

text \<open>
  The offset \<^verbatim>\<open>index[0]*self.shape[1] + index[1]\<close> is computed in \<^verbatim>\<open>INT_T\<close>, so it
  wraps around, and is read as a signed number.
\<close>

definition offset :: "'w::len Pair \<Rightarrow> 'w Pair \<Rightarrow> int" where
  "offset shp index = sint (fst index * snd shp + snd index)"

definition iarray_valid_indices :: "'w::len word IArray \<Rightarrow> 'w Pair \<Rightarrow> 'w Pair error + unit" where
  "iarray_valid_indices self index =
     (if sint (fst index) > sint (fst (IArray.shape self)) \<or>
         sint (snd index) > sint (snd (IArray.shape self))
      then Inl (IndexError (IArray.shape self))
      else Inr ())"

definition iarray_get :: "'w::len word IArray \<Rightarrow> 'w Pair \<Rightarrow> 'w Pair error + 'w word" where
  "iarray_get self index =
     (let k = offset (IArray.shape self) index in
      if 0 \<le> k \<and> k < int (length (IArray.arr self)) then Inr (IArray.arr self ! nat k)
      else Inl OutOfBuffer)"

definition iarray_set ::
  "'w::len word IArray \<Rightarrow> 'w Pair \<Rightarrow> 'w word \<Rightarrow> 'w Pair error + 'w word IArray" where
  "iarray_set self index val =
     (let k = offset (IArray.shape self) index in
      if 0 \<le> k \<and> k < int (length (IArray.arr self))
      then Inr (self\<lparr>IArray.arr := (IArray.arr self)[nat k := val]\<rparr>)
      else Inl OutOfBuffer)"

definition farray_valid_indices ::
  "('w::len word, 'f) FArray \<Rightarrow> 'w Pair \<Rightarrow> 'w Pair error + unit" where
  "farray_valid_indices self index =
     (if sint (fst index) > sint (fst (FArray.shape self)) \<or>
         sint (snd index) > sint (snd (FArray.shape self))
      then Inl (IndexError (FArray.shape self))
      else Inr ())"

definition farray_get :: "('w::len word, 'f) FArray \<Rightarrow> 'w Pair \<Rightarrow> 'w Pair error + 'f" where
  "farray_get self index =
     (let k = offset (FArray.shape self) index in
      if 0 \<le> k \<and> k < int (length (FArray.arr self)) then Inr (FArray.arr self ! nat k)
      else Inl OutOfBuffer)"

definition farray_set ::
  "('w::len word, 'f) FArray \<Rightarrow> 'w Pair \<Rightarrow> 'f \<Rightarrow> 'w Pair error + ('w word, 'f) FArray" where
  "farray_set self index val =
     (let k = offset (FArray.shape self) index in
      if 0 \<le> k \<and> k < int (length (FArray.arr self))
      then Inr (self\<lparr>FArray.arr := (FArray.arr self)[nat k := val]\<rparr>)
      else Inl OutOfBuffer)"

text \<open>
  The module ships with the calls of the two \<^verbatim>\<open>..._valid_indices\<close> functions commented
  out in the accessors (``If bound checking is desired, uncomment out ..._valid_indices
  functions''). With the calls restored an accessor runs the check first and then the
  access.

  The \<open>Inl\<close> branch of the two checks, and of the checked accessors, is the
  \<^verbatim>\<open>raise\<close> reaching the caller, as it does when the module is compiled by Cython 3
  or later. The checks are \<^verbatim>\<open>cdef inline bint ... nogil\<close> functions with no
  \<^verbatim>\<open>except\<close> clause: an earlier Cython prints the exception and goes on, so that no
  access is stopped at all. Only the branch that raises nothing is the same under
  both.
\<close>

definition iarray_get_checked :: "'w::len word IArray \<Rightarrow> 'w Pair \<Rightarrow> 'w Pair error + 'w word" where
  "iarray_get_checked self index =
     (case iarray_valid_indices self index of
        Inl e \<Rightarrow> Inl e
      | Inr u \<Rightarrow> iarray_get self index)"

definition iarray_set_checked ::
  "'w::len word IArray \<Rightarrow> 'w Pair \<Rightarrow> 'w word \<Rightarrow> 'w Pair error + 'w word IArray" where
  "iarray_set_checked self index val =
     (case iarray_valid_indices self index of
        Inl e \<Rightarrow> Inl e
      | Inr u \<Rightarrow> iarray_set self index val)"

definition farray_get_checked :: "('w::len word, 'f) FArray \<Rightarrow> 'w Pair \<Rightarrow> 'w Pair error + 'f" where
  "farray_get_checked self index =
     (case farray_valid_indices self index of
        Inl e \<Rightarrow> Inl e
      | Inr u \<Rightarrow> farray_get self index)"

definition farray_set_checked ::
  "('w::len word, 'f) FArray \<Rightarrow> 'w Pair \<Rightarrow> 'f \<Rightarrow> 'w Pair error + ('w word, 'f) FArray" where
  "farray_set_checked self index val =
     (case farray_valid_indices self index of
        Inl e \<Rightarrow> Inl e
      | Inr u \<Rightarrow> farray_set self index val)"

text \<open>
  The arrays the accessors are meant for: the shape is not negative, the buffer holds
  \<open>rows * cols\<close> elements, and that count is a value of \<^verbatim>\<open>INT_T\<close> (it is the
  offset one past the last element).
\<close>

definition shape_fits :: "'w::len Pair \<Rightarrow> nat \<Rightarrow> bool" where
  "shape_fits shp n \<longleftrightarrow>
     0 \<le> sint (fst shp) \<and> 0 \<le> sint (snd shp) \<and>
     int n = sint (fst shp) * sint (snd shp) \<and>
     sint (fst shp) * sint (snd shp) < 2 ^ (LENGTH('w) - 1)"

definition in_bounds :: "'w::len Pair \<Rightarrow> 'w Pair \<Rightarrow> bool" where
  "in_bounds shp index \<longleftrightarrow>
     0 \<le> sint (fst index) \<and> sint (fst index) < sint (fst shp) \<and>
     0 \<le> sint (snd index) \<and> sint (snd index) < sint (snd shp)"

section \<open>BitSet\<close>

text \<open>
  The struct holds the pointer \<^verbatim>\<open>bits\<close> to a buffer of \<^verbatim>\<open>INT_T\<close> that
  \<^verbatim>\<open>calloc\<close> returns zeroed. The constructor asks for \<^verbatim>\<open>elements/sizeof(INT_T) + 1\<close>
  words. For \<open>elements \<ge> 0\<close> the quotient is the same under every reading of
  \<^verbatim>\<open>/\<close> on C integers. The model takes the quotient rounded down; the readings
  differ on a negative \<open>elements\<close>, of which no theorem below speaks.
\<close>

record 'i BitSet =
  bits :: "'i list"

definition new_BitSet :: "'w::len word \<Rightarrow> 'w word BitSet" where
  "new_BitSet elements =
     \<lparr>bits = replicate (nat (sint elements div int (sizeof_INT_T elements) + 1)) 0\<rparr>"

text \<open>
  \<^verbatim>\<open>bitset_add\<close> returns a \<^verbatim>\<open>bint\<close> and updates the buffer through \<^verbatim>\<open>self\<close>: the
  model returns both, or \<open>None\<close> where \<^verbatim>\<open>self.bits[index]\<close> is outside the buffer.
  \<open>index\<close> and \<open>rel_index\<close> are the quotient and the remainder of \<open>val\<close> by
  \<^verbatim>\<open>sizeof(INT_T)\<close>; neither computation can overflow. A negative \<open>val\<close> has its
  \<open>index\<close> below the buffer when the quotient is rounded down, and a negative shift
  count when it is truncated: undefined in C either way, and \<open>None\<close> here.
\<close>

definition bitset_add :: "'w::len word BitSet \<Rightarrow> 'w word \<Rightarrow> (bool \<times> 'w word BitSet) option" where
  "bitset_add self val =
     (let index = sint val div int (sizeof_INT_T val) in
      if 0 \<le> index \<and> index < int (length (bits self)) then
        let old = bits self ! nat index;
            rel_index = sint val - index * int (sizeof_INT_T val);
            self' = self\<lparr>bits := (bits self)[nat index := push_bit (nat rel_index) 1 OR old]\<rparr>
        in Some (old = bits self' ! nat index, self')
      else None)"

text \<open>
  The struct has no query. The bit that stands for a value is the one \<^verbatim>\<open>bitset_add\<close>
  addresses: bit \<open>rel_index\<close> of word \<open>index\<close>.
\<close>

definition bit_of_value :: "'w::len word BitSet \<Rightarrow> 'w word \<Rightarrow> bool" where
  "bit_of_value self val =
     (let index = sint val div int (sizeof_INT_T val);
          rel_index = sint val - index * int (sizeof_INT_T val)
      in bit (bits self ! nat index) (nat rel_index))"

definition within_capacity :: "'w::len word BitSet \<Rightarrow> 'w word \<Rightarrow> bool" where
  "within_capacity self val \<longleftrightarrow>
     0 \<le> sint val \<and> sint val div int (sizeof_INT_T val) < int (length (bits self))"

text \<open>
  The buffer size as the specification words it: the capacity hint over the number of
  bits of a storage word, rounded up, plus one.
\<close>

definition spec_bitset_words :: "nat \<Rightarrow> nat \<Rightarrow> nat" where
  "spec_bitset_words max_element word_bit_width =
     (max_element + word_bit_width - 1) div word_bit_width + 1"

section \<open>Vector2D and Matrix2x2\<close>

text \<open>
  A vector has the components \<^verbatim>\<open>x\<close>, \<^verbatim>\<open>y\<close>, a matrix \<^verbatim>\<open>a\<close>, \<^verbatim>\<open>b\<close>, \<^verbatim>\<open>c\<close>, \<^verbatim>\<open>d\<close>.
  The constructors also copy the operation tables and the addresses of the direct
  methods into each value; these are the same for every value, so the model keeps them
  as the constants \<open>VSO\<close>, \<open>VCO\<close>, \<open>MSO\<close>, \<open>MCO\<close> below and a value is its
  components.

  A method receives its receiver by pointer (\<^verbatim>\<open>Vector2D* self\<close>) and every other
  operand by value. A pointer is an address, and the memory a method can reach through
  \<^verbatim>\<open>self\<close> is a store from addresses to values. A self operation returns the pointer
  it was given and the store it leaves; a copy operation returns the struct built by
  the constructor, by value, beside the store it leaves.
\<close>

record 'f Vector2D =
  x :: 'f
  y :: 'f

record 'f Matrix2x2 =
  a :: 'f
  b :: 'f
  c :: 'f
  d :: 'f

type_synonym addr = nat
type_synonym 'f vstore = "addr \<Rightarrow> 'f Vector2D"
type_synonym 'f mstore = "addr \<Rightarrow> 'f Matrix2x2"

definition new_Vector2D :: "'f \<Rightarrow> 'f \<Rightarrow> 'f Vector2D" where
  "new_Vector2D u v = \<lparr>x = u, y = v\<rparr>"

definition new_Matrix2x2 :: "'f \<Rightarrow> 'f \<Rightarrow> 'f \<Rightarrow> 'f \<Rightarrow> 'f Matrix2x2" where
  "new_Matrix2x2 t u v w = \<lparr>a = t, b = u, c = v, d = w\<rparr>"

text \<open>The assignments \<^verbatim>\<open>self.x = e\<close>, ..., \<^verbatim>\<open>self.d = e\<close> through the pointer.\<close>

definition put_x :: "addr \<Rightarrow> 'f \<Rightarrow> 'f vstore \<Rightarrow> 'f vstore" where
  "put_x self e h = h(self := (h self)\<lparr>x := e\<rparr>)"

definition put_y :: "addr \<Rightarrow> 'f \<Rightarrow> 'f vstore \<Rightarrow> 'f vstore" where
  "put_y self e h = h(self := (h self)\<lparr>y := e\<rparr>)"

definition put_a :: "addr \<Rightarrow> 'f \<Rightarrow> 'f mstore \<Rightarrow> 'f mstore" where
  "put_a self e h = h(self := (h self)\<lparr>a := e\<rparr>)"

definition put_b :: "addr \<Rightarrow> 'f \<Rightarrow> 'f mstore \<Rightarrow> 'f mstore" where
  "put_b self e h = h(self := (h self)\<lparr>b := e\<rparr>)"

definition put_c :: "addr \<Rightarrow> 'f \<Rightarrow> 'f mstore \<Rightarrow> 'f mstore" where
  "put_c self e h = h(self := (h self)\<lparr>c := e\<rparr>)"

definition put_d :: "addr \<Rightarrow> 'f \<Rightarrow> 'f mstore \<Rightarrow> 'f mstore" where
  "put_d self e h = h(self := (h self)\<lparr>d := e\<rparr>)"

subsection \<open>Vector2D: self operations\<close>

text \<open>
  Statements run in the source's order, each on the store the previous one left. A
  tuple assignment evaluates its whole right-hand side first.
\<close>

definition v_neg_s :: "addr \<Rightarrow> 'f::uminus vstore \<Rightarrow> addr \<times> 'f vstore" where
  "v_neg_s self h0 =
     (let h1 = put_x self (- x (h0 self)) h0;
          h2 = put_y self (- y (h1 self)) h1
      in (self, h2))"

definition v_vadd_s :: "addr \<Rightarrow> 'f Vector2D \<Rightarrow> 'f::plus vstore \<Rightarrow> addr \<times> 'f vstore" where
  "v_vadd_s self w h0 =
     (let h1 = put_x self (x (h0 self) + x w) h0;
          h2 = put_y self (y (h1 self) + y w) h1
      in (self, h2))"

definition v_vsub_s :: "addr \<Rightarrow> 'f Vector2D \<Rightarrow> 'f::minus vstore \<Rightarrow> addr \<times> 'f vstore" where
  "v_vsub_s self w h0 =
     (let h1 = put_x self (x (h0 self) - x w) h0;
          h2 = put_y self (y (h1 self) - y w) h1
      in (self, h2))"

definition v_vmul_s :: "addr \<Rightarrow> 'f Vector2D \<Rightarrow> 'f::times vstore \<Rightarrow> addr \<times> 'f vstore" where
  "v_vmul_s self w h0 =
     (let h1 = put_x self (x (h0 self) * x w) h0;
          h2 = put_y self (y (h1 self) * y w) h1
      in (self, h2))"

definition v_vdiv_s :: "addr \<Rightarrow> 'f Vector2D \<Rightarrow> 'f::inverse vstore \<Rightarrow> addr \<times> 'f vstore" where
  "v_vdiv_s self w h0 =
     (let h1 = put_x self (x (h0 self) / x w) h0;
          h2 = put_y self (y (h1 self) / y w) h1
      in (self, h2))"

definition v_sadd_s :: "addr \<Rightarrow> 'f \<Rightarrow> 'f::plus vstore \<Rightarrow> addr \<times> 'f vstore" where
  "v_sadd_s self s h0 =
     (let h1 = put_x self (x (h0 self) + s) h0;
          h2 = put_y self (y (h1 self) + s) h1
      in (self, h2))"

definition v_ssub_s :: "addr \<Rightarrow> 'f \<Rightarrow> 'f::minus vstore \<Rightarrow> addr \<times> 'f vstore" where
  "v_ssub_s self s h0 =
     (let h1 = put_x self (x (h0 self) - s) h0;
          h2 = put_y self (y (h1 self) - s) h1
      in (self, h2))"

definition v_smul_s :: "addr \<Rightarrow> 'f \<Rightarrow> 'f::times vstore \<Rightarrow> addr \<times> 'f vstore" where
  "v_smul_s self s h0 =
     (let h1 = put_x self (x (h0 self) * s) h0;
          h2 = put_y self (y (h1 self) * s) h1
      in (self, h2))"

definition v_sdiv_s :: "addr \<Rightarrow> 'f \<Rightarrow> 'f::inverse vstore \<Rightarrow> addr \<times> 'f vstore" where
  "v_sdiv_s self s h0 =
     (let h1 = put_x self (x (h0 self) / s) h0;
          h2 = put_y self (y (h1 self) / s) h1
      in (self, h2))"

definition v_matmul_s ::
  "addr \<Rightarrow> 'f Matrix2x2 \<Rightarrow> 'f::{plus,times} vstore \<Rightarrow> addr \<times> 'f vstore" where
  "v_matmul_s self m h0 =
     (let t1 = x (h0 self) * a m + y (h0 self) * c m;
          t2 = x (h0 self) * b m + y (h0 self) * d m;
          h1 = put_x self t1 h0;
          h2 = put_y self t2 h1
      in (self, h2))"

definition rot_s :: "addr \<Rightarrow> 'f::uminus vstore \<Rightarrow> addr \<times> 'f vstore" where
  "rot_s self h0 =
     (let t1 = - y (h0 self);
          t2 = x (h0 self);
          h1 = put_x self t1 h0;
          h2 = put_y self t2 h1
      in (self, h2))"

subsection \<open>Vector2D: copy operations and direct methods\<close>

definition v_neg_c :: "addr \<Rightarrow> 'f::uminus vstore \<Rightarrow> 'f Vector2D \<times> 'f vstore" where
  "v_neg_c self h = (new_Vector2D (- x (h self)) (- y (h self)), h)"

definition v_vadd_c :: "addr \<Rightarrow> 'f Vector2D \<Rightarrow> 'f::plus vstore \<Rightarrow> 'f Vector2D \<times> 'f vstore" where
  "v_vadd_c self w h = (new_Vector2D (x (h self) + x w) (y (h self) + y w), h)"

definition v_vsub_c :: "addr \<Rightarrow> 'f Vector2D \<Rightarrow> 'f::minus vstore \<Rightarrow> 'f Vector2D \<times> 'f vstore" where
  "v_vsub_c self w h = (new_Vector2D (x (h self) - x w) (y (h self) - y w), h)"

definition v_vmul_c :: "addr \<Rightarrow> 'f Vector2D \<Rightarrow> 'f::times vstore \<Rightarrow> 'f Vector2D \<times> 'f vstore" where
  "v_vmul_c self w h = (new_Vector2D (x (h self) * x w) (y (h self) * y w), h)"

definition v_vdiv_c :: "addr \<Rightarrow> 'f Vector2D \<Rightarrow> 'f::inverse vstore \<Rightarrow> 'f Vector2D \<times> 'f vstore" where
  "v_vdiv_c self w h = (new_Vector2D (x (h self) / x w) (y (h self) / y w), h)"

definition v_sadd_c :: "addr \<Rightarrow> 'f \<Rightarrow> 'f::plus vstore \<Rightarrow> 'f Vector2D \<times> 'f vstore" where
  "v_sadd_c self s h = (new_Vector2D (x (h self) + s) (y (h self) + s), h)"

definition v_ssub_c :: "addr \<Rightarrow> 'f \<Rightarrow> 'f::plus vstore \<Rightarrow> 'f Vector2D \<times> 'f vstore" where
  "v_ssub_c self s h = (new_Vector2D (x (h self) + s) (y (h self) + s), h)"

definition v_smul_c :: "addr \<Rightarrow> 'f \<Rightarrow> 'f::times vstore \<Rightarrow> 'f Vector2D \<times> 'f vstore" where
  "v_smul_c self s h = (new_Vector2D (x (h self) * s) (y (h self) * s), h)"

definition v_sdiv_c :: "addr \<Rightarrow> 'f \<Rightarrow> 'f::inverse vstore \<Rightarrow> 'f Vector2D \<times> 'f vstore" where
  "v_sdiv_c self s h = (new_Vector2D (x (h self) / s) (y (h self) / s), h)"

definition v_matmul_c ::
  "addr \<Rightarrow> 'f Matrix2x2 \<Rightarrow> 'f::{plus,times} vstore \<Rightarrow> 'f Vector2D \<times> 'f vstore" where
  "v_matmul_c self m h =
     (new_Vector2D (x (h self) * a m + y (h self) * c m) (x (h self) * b m + y (h self) * d m), h)"

definition rot_c :: "addr \<Rightarrow> 'f::uminus vstore \<Rightarrow> 'f Vector2D \<times> 'f vstore" where
  "rot_c self h = (new_Vector2D (- y (h self)) (x (h self)), h)"

definition dot :: "addr \<Rightarrow> 'f Vector2D \<Rightarrow> 'f::{plus,times} vstore \<Rightarrow> 'f" where
  "dot self w h = x (h self) * x w + y (h self) * y w"

subsection \<open>Matrix2x2: self operations\<close>

definition m_neg_s :: "addr \<Rightarrow> 'f::uminus mstore \<Rightarrow> addr \<times> 'f mstore" where
  "m_neg_s self h0 =
     (let t1 = - a (h0 self); t2 = - b (h0 self); t3 = - c (h0 self); t4 = - d (h0 self);
          h1 = put_a self t1 h0;
          h2 = put_b self t2 h1;
          h3 = put_c self t3 h2;
          h4 = put_d self t4 h3
      in (self, h4))"

definition m_madd_s :: "addr \<Rightarrow> 'f Matrix2x2 \<Rightarrow> 'f::plus mstore \<Rightarrow> addr \<times> 'f mstore" where
  "m_madd_s self m h0 =
     (let h1 = put_a self (a (h0 self) + a m) h0;
          h2 = put_b self (b (h1 self) + b m) h1;
          h3 = put_c self (c (h2 self) + c m) h2;
          h4 = put_d self (d (h3 self) + d m) h3
      in (self, h4))"

definition m_msub_s :: "addr \<Rightarrow> 'f Matrix2x2 \<Rightarrow> 'f::minus mstore \<Rightarrow> addr \<times> 'f mstore" where
  "m_msub_s self m h0 =
     (let h1 = put_a self (a (h0 self) - a m) h0;
          h2 = put_b self (b (h1 self) - b m) h1;
          h3 = put_c self (c (h2 self) - c m) h2;
          h4 = put_d self (d (h3 self) - d m) h3
      in (self, h4))"

definition m_mmul_s :: "addr \<Rightarrow> 'f Matrix2x2 \<Rightarrow> 'f::times mstore \<Rightarrow> addr \<times> 'f mstore" where
  "m_mmul_s self m h0 =
     (let h1 = put_a self (a (h0 self) * a m) h0;
          h2 = put_b self (b (h1 self) * b m) h1;
          h3 = put_c self (c (h2 self) * c m) h2;
          h4 = put_d self (d (h3 self) * d m) h3
      in (self, h4))"

definition m_mdiv_s :: "addr \<Rightarrow> 'f Matrix2x2 \<Rightarrow> 'f::inverse mstore \<Rightarrow> addr \<times> 'f mstore" where
  "m_mdiv_s self m h0 =
     (let h1 = put_a self (a (h0 self) / a m) h0;
          h2 = put_b self (b (h1 self) / b m) h1;
          h3 = put_c self (c (h2 self) / c m) h2;
          h4 = put_d self (d (h3 self) / d m) h3
      in (self, h4))"

definition m_sadd_s :: "addr \<Rightarrow> 'f \<Rightarrow> 'f::plus mstore \<Rightarrow> addr \<times> 'f mstore" where
  "m_sadd_s self s h0 =
     (let h1 = put_a self (a (h0 self) + s) h0;
          h2 = put_b self (b (h1 self) + s) h1;
          h3 = put_c self (c (h2 self) + s) h2;
          h4 = put_d self (d (h3 self) + s) h3
      in (self, h4))"

definition m_ssub_s :: "addr \<Rightarrow> 'f \<Rightarrow> 'f::minus mstore \<Rightarrow> addr \<times> 'f mstore" where
  "m_ssub_s self s h0 =
     (let h1 = put_a self (a (h0 self) - s) h0;
          h2 = put_b self (b (h1 self) - s) h1;
          h3 = put_c self (c (h2 self) - s) h2;
          h4 = put_d self (d (h3 self) - s) h3
      in (self, h4))"

definition m_smul_s :: "addr \<Rightarrow> 'f \<Rightarrow> 'f::times mstore \<Rightarrow> addr \<times> 'f mstore" where
  "m_smul_s self s h0 =
     (let h1 = put_a self (a (h0 self) * s) h0;
          h2 = put_b self (b (h1 self) * s) h1;
          h3 = put_c self (c (h2 self) * s) h2;
          h4 = put_d self (d (h3 self) * s) h3
      in (self, h4))"

definition m_sdiv_s :: "addr \<Rightarrow> 'f \<Rightarrow> 'f::inverse mstore \<Rightarrow> addr \<times> 'f mstore" where
  "m_sdiv_s self s h0 =
     (let h1 = put_a self (a (h0 self) / s) h0;
          h2 = put_b self (b (h1 self) / s) h1;
          h3 = put_c self (c (h2 self) / s) h2;
          h4 = put_d self (d (h3 self) / s) h3
      in (self, h4))"

definition m_matmul_s ::
  "addr \<Rightarrow> 'f Matrix2x2 \<Rightarrow> 'f::{plus,times} mstore \<Rightarrow> addr \<times> 'f mstore" where
  "m_matmul_s self m h0 =
     (let t1 = a (h0 self) * a m + b (h0 self) * c m;
          t2 = a (h0 self) * b m + b (h0 self) * d m;
          t3 = c (h0 self) * a m + d (h0 self) * c m;
          t4 = c (h0 self) * b m + d (h0 self) * d m;
          h1 = put_a self t1 h0;
          h2 = put_b self t2 h1;
          h3 = put_c self t3 h2;
          h4 = put_d self t4 h3
      in (self, h4))"

definition m_transpose_s :: "addr \<Rightarrow> 'f mstore \<Rightarrow> addr \<times> 'f mstore" where
  "m_transpose_s self h0 =
     (let t1 = c (h0 self);
          t2 = b (h0 self);
          h1 = put_b self t1 h0;
          h2 = put_c self t2 h1
      in (self, h2))"

subsection \<open>Matrix2x2: copy operations\<close>

definition m_neg_c :: "addr \<Rightarrow> 'f::uminus mstore \<Rightarrow> 'f Matrix2x2 \<times> 'f mstore" where
  "m_neg_c self h =
     (new_Matrix2x2 (- a (h self)) (- b (h self)) (- c (h self)) (- d (h self)), h)"

definition m_madd_c :: "addr \<Rightarrow> 'f Matrix2x2 \<Rightarrow> 'f::plus mstore \<Rightarrow> 'f Matrix2x2 \<times> 'f mstore" where
  "m_madd_c self m h =
     (new_Matrix2x2 (a (h self) + a m) (b (h self) + b m) (c (h self) + c m) (d (h self) + d m), h)"

definition m_msub_c :: "addr \<Rightarrow> 'f Matrix2x2 \<Rightarrow> 'f::minus mstore \<Rightarrow> 'f Matrix2x2 \<times> 'f mstore" where
  "m_msub_c self m h =
     (new_Matrix2x2 (a (h self) - a m) (b (h self) - b m) (c (h self) - c m) (d (h self) - d m), h)"

definition m_mmul_c :: "addr \<Rightarrow> 'f Matrix2x2 \<Rightarrow> 'f::times mstore \<Rightarrow> 'f Matrix2x2 \<times> 'f mstore" where
  "m_mmul_c self m h =
     (new_Matrix2x2 (a (h self) * a m) (b (h self) * b m) (c (h self) * c m) (d (h self) * d m), h)"

definition m_mdiv_c :: "addr \<Rightarrow> 'f Matrix2x2 \<Rightarrow> 'f::inverse mstore \<Rightarrow> 'f Matrix2x2 \<times> 'f mstore" where
  "m_mdiv_c self m h =
     (new_Matrix2x2 (a (h self) / a m) (b (h self) / b m) (c (h self) / c m) (d (h self) / d m), h)"

definition m_sadd_c :: "addr \<Rightarrow> 'f \<Rightarrow> 'f::plus mstore \<Rightarrow> 'f Matrix2x2 \<times> 'f mstore" where
  "m_sadd_c self s h =
     (new_Matrix2x2 (a (h self) + s) (b (h self) + s) (c (h self) + s) (d (h self) + s), h)"

definition m_ssub_c :: "addr \<Rightarrow> 'f \<Rightarrow> 'f::minus mstore \<Rightarrow> 'f Matrix2x2 \<times> 'f mstore" where
  "m_ssub_c self s h =
     (new_Matrix2x2 (a (h self) - s) (b (h self) - s) (c (h self) - s) (d (h self) - s), h)"

definition m_smul_c :: "addr \<Rightarrow> 'f \<Rightarrow> 'f::times mstore \<Rightarrow> 'f Matrix2x2 \<times> 'f mstore" where
  "m_smul_c self s h =
     (new_Matrix2x2 (a (h self) * s) (b (h self) * s) (c (h self) * s) (d (h self) * s), h)"

definition m_sdiv_c :: "addr \<Rightarrow> 'f \<Rightarrow> 'f::inverse mstore \<Rightarrow> 'f Matrix2x2 \<times> 'f mstore" where
  "m_sdiv_c self s h =
     (new_Matrix2x2 (a (h self) / s) (b (h self) / s) (c (h self) / s) (d (h self) / s), h)"

definition m_matmul_c ::
  "addr \<Rightarrow> 'f Matrix2x2 \<Rightarrow> 'f::{plus,times} mstore \<Rightarrow> 'f Matrix2x2 \<times> 'f mstore" where
  "m_matmul_c self m h =
     (new_Matrix2x2
        (a (h self) * a m + b (h self) * c m) (a (h self) * b m + b (h self) * d m)
        (c (h self) * a m + d (h self) * c m) (c (h self) * b m + d (h self) * d m), h)"

definition m_transpose_c :: "addr \<Rightarrow> 'f mstore \<Rightarrow> 'f Matrix2x2 \<times> 'f mstore" where
  "m_transpose_c self h = (new_Matrix2x2 (a (h self)) (c (h self)) (b (h self)) (d (h self)), h)"

subsection \<open>The operation tables\<close>

text \<open>
  A table is a struct of function pointers, one field for each operation name. A call
  \<^verbatim>\<open>v.self.vadd(&v, w)\<close> selects a field and passes the receiver and the operand. A
  field name with the operand of the call is a value of \<open>vop\<close> (\<open>mop\<close> for
  matrices), and a table maps it to the function the module assigns to that field.
\<close>

datatype 'f vop =
  V_neg | V_vadd "'f Vector2D" | V_vsub "'f Vector2D" | V_vmul "'f Vector2D"
| V_vdiv "'f Vector2D" | V_sadd 'f | V_ssub 'f | V_smul 'f | V_sdiv 'f
| V_matmul "'f Matrix2x2" | V_rot

datatype 'f mop =
  M_neg | M_madd "'f Matrix2x2" | M_msub "'f Matrix2x2" | M_mmul "'f Matrix2x2"
| M_mdiv "'f Matrix2x2" | M_sadd 'f | M_ssub 'f | M_smul 'f | M_sdiv 'f
| M_matmul "'f Matrix2x2" | M_T

fun VSO :: "'f::{uminus,plus,minus,times,inverse} vop \<Rightarrow> addr \<Rightarrow> 'f vstore \<Rightarrow> addr \<times> 'f vstore" where
  "VSO V_neg = v_neg_s"
| "VSO (V_vadd w) = (\<lambda>self. v_vadd_s self w)"
| "VSO (V_vsub w) = (\<lambda>self. v_vsub_s self w)"
| "VSO (V_vmul w) = (\<lambda>self. v_vmul_s self w)"
| "VSO (V_vdiv w) = (\<lambda>self. v_vdiv_s self w)"
| "VSO (V_sadd s) = (\<lambda>self. v_sadd_s self s)"
| "VSO (V_ssub s) = (\<lambda>self. v_ssub_s self s)"
| "VSO (V_smul s) = (\<lambda>self. v_smul_s self s)"
| "VSO (V_sdiv s) = (\<lambda>self. v_sdiv_s self s)"
| "VSO (V_matmul m) = (\<lambda>self. v_matmul_s self m)"
| "VSO V_rot = rot_s"

fun VCO ::
  "'f::{uminus,plus,minus,times,inverse} vop \<Rightarrow> addr \<Rightarrow> 'f vstore \<Rightarrow> 'f Vector2D \<times> 'f vstore" where
  "VCO V_neg = v_neg_c"
| "VCO (V_vadd w) = (\<lambda>self. v_vadd_c self w)"
| "VCO (V_vsub w) = (\<lambda>self. v_vsub_c self w)"
| "VCO (V_vmul w) = (\<lambda>self. v_vmul_c self w)"
| "VCO (V_vdiv w) = (\<lambda>self. v_vdiv_c self w)"
| "VCO (V_sadd s) = (\<lambda>self. v_sadd_c self s)"
| "VCO (V_ssub s) = (\<lambda>self. v_ssub_c self s)"
| "VCO (V_smul s) = (\<lambda>self. v_smul_c self s)"
| "VCO (V_sdiv s) = (\<lambda>self. v_sdiv_c self s)"
| "VCO (V_matmul m) = (\<lambda>self. v_matmul_c self m)"
| "VCO V_rot = rot_c"

fun MSO :: "'f::{uminus,plus,minus,times,inverse} mop \<Rightarrow> addr \<Rightarrow> 'f mstore \<Rightarrow> addr \<times> 'f mstore" where
  "MSO M_neg = m_neg_s"
| "MSO (M_madd m) = (\<lambda>self. m_madd_s self m)"
| "MSO (M_msub m) = (\<lambda>self. m_msub_s self m)"
| "MSO (M_mmul m) = (\<lambda>self. m_mmul_s self m)"
| "MSO (M_mdiv m) = (\<lambda>self. m_mdiv_s self m)"
| "MSO (M_sadd s) = (\<lambda>self. m_sadd_s self s)"
| "MSO (M_ssub s) = (\<lambda>self. m_ssub_s self s)"
| "MSO (M_smul s) = (\<lambda>self. m_smul_s self s)"
| "MSO (M_sdiv s) = (\<lambda>self. m_sdiv_s self s)"
| "MSO (M_matmul m) = (\<lambda>self. m_matmul_s self m)"
| "MSO M_T = m_transpose_s"

fun MCO ::
  "'f::{uminus,plus,minus,times,inverse} mop \<Rightarrow> addr \<Rightarrow> 'f mstore \<Rightarrow> 'f Matrix2x2 \<times> 'f mstore" where
  "MCO M_neg = m_neg_c"
| "MCO (M_madd m) = (\<lambda>self. m_madd_c self m)"
| "MCO (M_msub m) = (\<lambda>self. m_msub_c self m)"
| "MCO (M_mmul m) = (\<lambda>self. m_mmul_c self m)"
| "MCO (M_mdiv m) = (\<lambda>self. m_mdiv_c self m)"
| "MCO (M_sadd s) = (\<lambda>self. m_sadd_c self s)"
| "MCO (M_ssub s) = (\<lambda>self. m_ssub_c self s)"
| "MCO (M_smul s) = (\<lambda>self. m_smul_c self s)"
| "MCO (M_sdiv s) = (\<lambda>self. m_sdiv_c self s)"
| "MCO (M_matmul m) = (\<lambda>self. m_matmul_c self m)"
| "MCO M_T = m_transpose_c"

section \<open>Properties of the arrays\<close>

lemma offset_in_bounds:
  fixes shp index :: "'w::len Pair"
  assumes fits: "shape_fits shp n" and inb: "in_bounds shp index"
  shows "offset shp index = sint (fst index) * sint (snd shp) + sint (snd index)"
    and "0 \<le> offset shp index" and "offset shp index < int n"
proof -
  let ?i = "sint (fst index)" and ?j = "sint (snd index)"
  let ?r = "sint (fst shp)" and ?c = "sint (snd shp)"
  let ?k = "?i * ?c + ?j"
  from inb have i: "0 \<le> ?i" "?i \<le> ?r - 1" and j: "0 \<le> ?j" "?j \<le> ?c - 1"
    by (simp_all add: in_bounds_def)
  from fits have n: "int n = ?r * ?c" and small: "?r * ?c < 2 ^ (LENGTH('w) - 1)"
    by (simp_all add: shape_fits_def)
  have c0: "0 \<le> ?c" using j by simp
  have "?i * ?c \<le> (?r - 1) * ?c" using i(2) c0 by (rule mult_right_mono)
  then have upper: "?k < ?r * ?c" using j(2) by (simp add: algebra_simps)
  have lower: "0 \<le> ?k" using i(1) j(1) c0 by simp
  have "fst index * snd shp + snd index = word_of_int ?k" by simp
  then have "offset shp index = signed_take_bit (LENGTH('w) - 1) ?k"
    by (simp only: offset_def sint_sbintrunc')
  also have "\<dots> = ?k"
    using lower upper small by (intro signed_take_bit_int_eq_self) simp_all
  finally show "offset shp index = ?k" .
  then show "0 \<le> offset shp index" and "offset shp index < int n"
    using lower upper n by simp_all
qed

text \<open>
  Claim C4. In an array of shape \<open>(rows, cols)\<close> whose buffer holds \<open>rows * cols\<close>
  elements (a count that \<^verbatim>\<open>INT_T\<close> can hold), the element of an in-bounds index
  \<open>(i, j)\<close> is the one at offset \<open>i * cols + j\<close> of the buffer: \<open>get\<close> reads that
  place, \<open>set\<close> writes it and nothing else, and \<open>get\<close> after \<open>set\<close> returns the value
  written. This holds for the integer and for the floating-point array.
\<close>

theorem flat_offset_set_get:
  fixes ia :: "'w::len word IArray" and fa :: "('w word, 'f) FArray"
    and i j k l :: "'w word"
  assumes "shape_fits (IArray.shape ia) (length (IArray.arr ia))"
    and "in_bounds (IArray.shape ia) (i, j)"
    and "shape_fits (FArray.shape fa) (length (FArray.arr fa))"
    and "in_bounds (FArray.shape fa) (k, l)"
  shows "iarray_get ia (i, j) =
           Inr (IArray.arr ia ! nat (sint i * sint (snd (IArray.shape ia)) + sint j)) \<and>
         iarray_set ia (i, j) v =
           Inr (ia\<lparr>IArray.arr :=
             (IArray.arr ia)[nat (sint i * sint (snd (IArray.shape ia)) + sint j) := v]\<rparr>) \<and>
         iarray_get (ia\<lparr>IArray.arr :=
             (IArray.arr ia)[nat (sint i * sint (snd (IArray.shape ia)) + sint j) := v]\<rparr>) (i, j) =
           Inr v \<and>
         farray_get fa (k, l) =
           Inr (FArray.arr fa ! nat (sint k * sint (snd (FArray.shape fa)) + sint l)) \<and>
         farray_set fa (k, l) e =
           Inr (fa\<lparr>FArray.arr :=
             (FArray.arr fa)[nat (sint k * sint (snd (FArray.shape fa)) + sint l) := e]\<rparr>) \<and>
         farray_get (fa\<lparr>FArray.arr :=
             (FArray.arr fa)[nat (sint k * sint (snd (FArray.shape fa)) + sint l) := e]\<rparr>) (k, l) =
           Inr e"
proof -
  note io = offset_in_bounds [OF assms(1,2)]
  note fo = offset_in_bounds [OF assms(3,4)]
  have "iarray_get ia (i, j) =
      Inr (IArray.arr ia ! nat (sint i * sint (snd (IArray.shape ia)) + sint j))"
    using io by (simp add: iarray_get_def Let_def)
  moreover have "iarray_set ia (i, j) v =
      Inr (ia\<lparr>IArray.arr :=
        (IArray.arr ia)[nat (sint i * sint (snd (IArray.shape ia)) + sint j) := v]\<rparr>)"
    using io by (simp add: iarray_set_def Let_def)
  moreover have "iarray_get (ia\<lparr>IArray.arr :=
        (IArray.arr ia)[nat (sint i * sint (snd (IArray.shape ia)) + sint j) := v]\<rparr>) (i, j) = Inr v"
    using io by (simp add: iarray_get_def Let_def)
  moreover have "farray_get fa (k, l) =
      Inr (FArray.arr fa ! nat (sint k * sint (snd (FArray.shape fa)) + sint l))"
    using fo by (simp add: farray_get_def Let_def)
  moreover have "farray_set fa (k, l) e =
      Inr (fa\<lparr>FArray.arr :=
        (FArray.arr fa)[nat (sint k * sint (snd (FArray.shape fa)) + sint l) := e]\<rparr>)"
    using fo by (simp add: farray_set_def Let_def)
  moreover have "farray_get (fa\<lparr>FArray.arr :=
        (FArray.arr fa)[nat (sint k * sint (snd (FArray.shape fa)) + sint l) := e]\<rparr>) (k, l) = Inr e"
    using fo by (simp add: farray_get_def Let_def)
  ultimately show ?thesis by simp
qed

text \<open>The 2x3 arrays of the specification: \<open>set((1,2), 42)\<close>, then \<open>get((1,2))\<close>.\<close>

theorem flat_offset_set_get_witness:
  "shape_fits (2 :: 64 word, 3) (length [0, 0, 0, 0, 0, 0 :: 64 word]) \<and>
   in_bounds (2 :: 64 word, 3) (1, 2) \<and>
   iarray_set (new_IArray [0, 0, 0, 0, 0, 0 :: 64 word] (2, 3)) (1, 2) 42 =
     Inr (new_IArray [0, 0, 0, 0, 0, 42] (2, 3)) \<and>
   iarray_get (new_IArray [0, 0, 0, 0, 0, 42 :: 64 word] (2, 3)) (1, 2) = Inr 42 \<and>
   farray_set (new_FArray [0, 0, 0, 0, 0, 0 :: real] (2 :: 64 word, 3)) (1, 2) 42 =
     Inr (new_FArray [0, 0, 0, 0, 0, 42] (2, 3)) \<and>
   farray_get (new_FArray [0, 0, 0, 0, 0, 42 :: real] (2 :: 64 word, 3)) (1, 2) = Inr 42"
proof -
  have fits: "shape_fits (2 :: 64 word, 3) (length [0, 0, 0, 0, 0, 0 :: 64 word])"
    "shape_fits (2 :: 64 word, 3) (length [0, 0, 0, 0, 0, 0 :: real])"
    by (simp_all add: shape_fits_def)
  have inb: "in_bounds (2 :: 64 word, 3) (1, 2)"
    by (simp add: in_bounds_def)
  have five: "nat 5 = Suc (Suc (Suc (Suc (Suc 0))))" by simp
  show ?thesis
    using fits inb
      flat_offset_set_get [of "new_IArray [0, 0, 0, 0, 0, 0 :: 64 word] (2, 3)" 1 2
        "new_FArray [0, 0, 0, 0, 0, 0 :: real] (2 :: 64 word, 3)" 1 2 42 42]
    by (simp add: new_IArray_def new_FArray_def five)
qed

subsection \<open>The bounds check\<close>

text \<open>
  What the check does: it raises for an index beyond the shape, with the shape in the
  error (where the \<^verbatim>\<open>raise\<close> reaches the caller), and lets every in-bounds access
  through.
\<close>

lemma valid_indices_raises:
  "sint (fst index) > sint (fst (IArray.shape ia)) \<or> sint (snd index) > sint (snd (IArray.shape ia))
     \<Longrightarrow> iarray_get_checked ia index = Inl (IndexError (IArray.shape ia)) \<and>
         iarray_set_checked ia index v = Inl (IndexError (IArray.shape ia))"
  "sint (fst index) > sint (fst (FArray.shape fa)) \<or> sint (snd index) > sint (snd (FArray.shape fa))
     \<Longrightarrow> farray_get_checked fa index = Inl (IndexError (FArray.shape fa)) \<and>
         farray_set_checked fa index e = Inl (IndexError (FArray.shape fa))"
  by (simp_all add: iarray_get_checked_def iarray_set_checked_def iarray_valid_indices_def
      farray_get_checked_def farray_set_checked_def farray_valid_indices_def)

lemma valid_indices_in_bounds:
  "in_bounds (IArray.shape ia) index \<Longrightarrow>
     iarray_get_checked ia index = iarray_get ia index \<and>
     iarray_set_checked ia index v = iarray_set ia index v"
  "in_bounds (FArray.shape fa) index \<Longrightarrow>
     farray_get_checked fa index = farray_get fa index \<and>
     farray_set_checked fa index e = farray_set fa index e"
  by (simp_all add: in_bounds_def iarray_get_checked_def iarray_set_checked_def
      iarray_valid_indices_def farray_get_checked_def farray_set_checked_def
      farray_valid_indices_def)

text \<open>
  It compares with \<open>>\<close>, so an index equal to the shape in either coordinate passes
  it as well.
\<close>

lemma valid_indices_passes_at_shape:
  "iarray_valid_indices ia (IArray.shape ia) = Inr ()"
  "farray_valid_indices fa (FArray.shape fa) = Inr ()"
  by (simp_all add: iarray_valid_indices_def farray_valid_indices_def)

text \<open>
  Claim C2 says that, with the check enabled, every access with \<open>row \<ge> rows\<close> or
  \<open>col \<ge> cols\<close> fails with the index-out-of-range error, and names \<open>get((2,0))\<close> on a
  2x3 array. On that input the check raises nothing, for both arrays, and the access
  goes on to offset 6 of a buffer of six elements. With \<open>col = cols\<close> in the first row,
  \<open>get((0,3))\<close>, the check passes too and the access returns the element \<open>(1,0)\<close>.
\<close>

theorem valid_indices_accepts_row_equal_to_rows:
  "iarray_valid_indices (new_IArray [0, 0, 0, 0, 0, 0 :: 64 word] (2, 3)) (2, 0) = Inr () \<and>
   iarray_get_checked (new_IArray [0, 0, 0, 0, 0, 0 :: 64 word] (2, 3)) (2, 0) = Inl OutOfBuffer \<and>
   iarray_set_checked (new_IArray [0, 0, 0, 0, 0, 0 :: 64 word] (2, 3)) (2, 0) 7 = Inl OutOfBuffer \<and>
   farray_valid_indices (new_FArray [0, 0, 0, 0, 0, 0 :: real] (2 :: 64 word, 3)) (2, 0) = Inr () \<and>
   farray_get_checked (new_FArray [0, 0, 0, 0, 0, 0 :: real] (2 :: 64 word, 3)) (2, 0) =
     Inl OutOfBuffer \<and>
   iarray_get_checked (new_IArray [1, 2, 3, 4, 5, 6 :: 64 word] (2, 3)) (0, 3) = Inr 4"
  by (simp add: iarray_valid_indices_def iarray_get_checked_def iarray_set_checked_def
      iarray_get_def iarray_set_def farray_valid_indices_def farray_get_checked_def farray_get_def
      new_IArray_def new_FArray_def offset_def)

section \<open>Properties of the bit set\<close>

lemma sizeof_INT_T_pos: "8 \<le> LENGTH('w::len) \<Longrightarrow> 0 < sizeof_INT_T (v :: 'w word)"
  by (simp add: sizeof_INT_T_def div_greater_zero_iff)

lemma sizeof_INT_T_le: "sizeof_INT_T (v :: 'w::len word) \<le> LENGTH('w)"
  by (simp add: sizeof_INT_T_def)

text \<open>The value returned: the word is unchanged by the \<open>OR\<close> exactly when the bit was set.\<close>

lemma or_bit_unchanged_iff:
  fixes old :: "'w::len word"
  assumes "r < LENGTH('w)"
  shows "(old = push_bit r 1 OR old) \<longleftrightarrow> bit old r"
proof
  assume "old = push_bit r 1 OR old"
  then have "bit old r = bit (push_bit r 1 OR old) r" by simp
  also have "\<dots>" using assms by (simp add: bit_or_iff bit_exp_iff)
  finally show "bit old r" .
next
  assume "bit old r"
  then show "old = push_bit r 1 OR old"
    by (intro bit_eqI) (auto simp: bit_or_iff bit_exp_iff)
qed

lemma bit_or_exp:
  fixes old :: "'w::len word"
  assumes "r < LENGTH('w)"
  shows "bit (2 ^ r OR old) k \<longleftrightarrow> k = r \<or> bit old k"
  using assms by (auto simp: bit_or_iff bit_exp_iff)

lemma rel_index_bounds:
  fixes v :: "'w::len word"
  assumes "8 \<le> LENGTH('w)"
  shows "0 \<le> sint u - sint u div int (sizeof_INT_T v) * int (sizeof_INT_T v)"
    and "nat (sint u - sint u div int (sizeof_INT_T v) * int (sizeof_INT_T v)) < LENGTH('w)"
proof -
  let ?sz = "int (sizeof_INT_T v)"
  have pos: "0 < ?sz" using sizeof_INT_T_pos [OF assms, of v] by simp
  have eq: "sint u - sint u div ?sz * ?sz = sint u mod ?sz"
    by (simp add: minus_div_mult_eq_mod)
  show "0 \<le> sint u - sint u div ?sz * ?sz" using pos by (simp add: eq)
  have "sint u mod ?sz < ?sz" using pos by simp
  then have "nat (sint u mod ?sz) < sizeof_INT_T v" using pos by (simp add: nat_less_iff)
  also have "\<dots> \<le> LENGTH('w)" by (rule sizeof_INT_T_le)
  finally show "nat (sint u - sint u div ?sz * ?sz) < LENGTH('w)" by (simp add: eq)
qed

text \<open>Two values with the same word and the same bit in it are the same value.\<close>

lemma quot_rem_inject:
  fixes u v :: "'w::len word"
  assumes "sint u div k = sint v div k"
    and "sint u - sint u div k * k = sint v - sint v div k * k"
  shows "u = v"
proof -
  have "sint u = sint v" using assms by simp
  then show ?thesis by (rule signed_word_eqI)
qed

lemma bitset_add_result:
  fixes self :: "'w::len word BitSet" and v :: "'w word"
  assumes len: "8 \<le> LENGTH('w)" and cap: "within_capacity self v"
  shows "\<exists>self'. bitset_add self v = Some (bit_of_value self v, self') \<and>
           length (bits self') = length (bits self) \<and>
           (\<forall>u. 0 \<le> sint u \<longrightarrow> bit_of_value self' u = (u = v \<or> bit_of_value self u))"
proof -
  let ?sz = "int (sizeof_INT_T v)"
  let ?i = "sint v div ?sz"
  let ?r = "sint v - ?i * ?sz"
  let ?old = "bits self ! nat ?i"
  let ?new = "push_bit (nat ?r) 1 OR ?old"
  let ?self' = "self\<lparr>bits := (bits self)[nat ?i := ?new]\<rparr>"
  have pos: "0 < ?sz" using sizeof_INT_T_pos [OF len, of v] by simp
  have i0: "0 \<le> ?i" using cap pos by (simp add: within_capacity_def pos_imp_zdiv_nonneg_iff)
  have i1: "?i < int (length (bits self))" using cap by (simp add: within_capacity_def)
  have i2: "nat ?i < length (bits self)" using i0 i1 by simp
  have r1: "nat ?r < LENGTH('w)" by (rule rel_index_bounds(2) [OF len])
  have ret: "(?old = ?new) = bit ?old (nat ?r)" by (rule or_bit_unchanged_iff [OF r1])
  have run: "bitset_add self v = Some (bit_of_value self v, ?self')"
    using i0 i1 i2 ret by (simp add: bitset_add_def bit_of_value_def Let_def)
  have others: "bit_of_value ?self' u = (u = v \<or> bit_of_value self u)" if u0: "0 \<le> sint u" for u
  proof -
    let ?j = "sint u div ?sz"
    let ?q = "sint u - ?j * ?sz"
    have sz: "int (sizeof_INT_T u) = ?sz" by (simp add: sizeof_INT_T_def)
    have q0: "0 \<le> ?q" by (rule rel_index_bounds(1) [OF len])
    have r0: "0 \<le> ?r" by (rule rel_index_bounds(1) [OF len])
    have j0: "0 \<le> ?j" using u0 pos by (simp add: pos_imp_zdiv_nonneg_iff)
    show ?thesis
    proof (cases "nat ?j = nat ?i")
      case False
      then have "u \<noteq> v" by auto
      with False show ?thesis by (simp add: bit_of_value_def Let_def sz)
    next
      case True
      then have ji: "?j = ?i" using i0 j0 by simp
      have val: "bit_of_value ?self' u = (nat ?q = nat ?r \<or> bit ?old (nat ?q))"
        using True i2 r1 by (simp add: bit_of_value_def Let_def sz bit_or_exp)
      have old: "bit_of_value self u = bit ?old (nat ?q)"
        using True by (simp add: bit_of_value_def Let_def sz)
      show ?thesis
      proof (cases "u = v")
        case True
        then show ?thesis using val by simp
      next
        case False
        have "nat ?q \<noteq> nat ?r"
        proof
          assume "nat ?q = nat ?r"
          then have qr: "?q = ?r" using q0 r0 by simp
          have "u = v" using ji qr by (rule quot_rem_inject)
          with False show False by simp
        qed
        then show ?thesis using val old False by simp
      qed
    qed
  qed
  show ?thesis using run i2 others by (intro exI [of _ ?self']) simp
qed

text \<open>An \<open>add\<close> that returns true has changed nothing.\<close>

lemma bitset_add_True_same:
  assumes "bitset_add self v = Some (True, self')"
  shows "self' = self"
proof -
  let ?i = "nat (sint v div int (sizeof_INT_T v))"
  let ?new = "push_bit (nat (sint v - sint v div int (sizeof_INT_T v) * int (sizeof_INT_T v))) 1
      OR bits self ! ?i"
  from assms have upd: "self' = self\<lparr>bits := (bits self)[?i := ?new]\<rparr>"
    and eq: "bits self ! ?i = (bits self)[?i := ?new] ! ?i"
    by (auto simp: bitset_add_def Let_def split: if_splits)
  from assms have "?i < length (bits self)"
    by (auto simp: bitset_add_def Let_def split: if_splits)
  with eq have "?new = bits self ! ?i" by simp
  then have "(bits self)[?i := ?new] = bits self" by simp
  with upd show ?thesis by simp
qed

lemma sint_five:
  assumes "8 \<le> LENGTH('w::len)"
  shows "sint (5 :: 'w word) = 5"
proof -
  have "(2::int) ^ 7 \<le> 2 ^ (LENGTH('w) - 1)"
    using assms by (intro power_increasing) simp_all
  then have "(5::int) < 2 ^ (LENGTH('w) - 1)" by simp
  then have "signed_take_bit (LENGTH('w) - 1) (5::int) = 5"
    by (intro signed_take_bit_int_eq_self) simp_all
  then show ?thesis by (simp only: sint_sbintrunc)
qed

text \<open>
  A new set of capacity hint \<open>n\<close> has room for every value from 0 to \<open>n\<close>, and none
  of their bits is set.
\<close>

lemma new_BitSet_fresh:
  fixes v n :: "'w::len word"
  assumes len: "8 \<le> LENGTH('w)" and v0: "0 \<le> sint v" and vn: "sint v \<le> sint n"
  shows "within_capacity (new_BitSet n) v" and "\<not> bit_of_value (new_BitSet n) v"
proof -
  let ?sz = "int (sizeof_INT_T v)"
  have pos: "0 < ?sz" using sizeof_INT_T_pos [OF len, of v] by simp
  have sz: "int (sizeof_INT_T n) = ?sz" by (simp add: sizeof_INT_T_def)
  have le: "sint v div ?sz \<le> sint n div ?sz" using vn pos by (simp add: zdiv_mono1)
  have i0: "0 \<le> sint v div ?sz" using v0 pos by (simp add: pos_imp_zdiv_nonneg_iff)
  have lt: "nat (sint v div ?sz) < nat (sint n div ?sz + 1)" using le i0 by simp
  show "within_capacity (new_BitSet n) v"
    using v0 le i0 by (simp add: within_capacity_def new_BitSet_def sz)
  show "\<not> bit_of_value (new_BitSet n) v"
    using lt by (simp add: bit_of_value_def new_BitSet_def sz Let_def)
qed

text \<open>
  Claim C3. For a word of at least eight bits and a value \<open>v \<ge> 0\<close> within the
  capacity of the set, \<open>add(v)\<close> returns whether the bit of \<open>v\<close> was set before the
  call, leaves that bit set, and leaves the bit of every other value as it was. On a
  new set that has room for 5, the first \<open>add(5)\<close> returns false and the second true;
  \<open>add(5)\<close> leaves 0 absent, a following \<open>add(0)\<close> returns false and leaves 5 present,
  and \<open>add(0)\<close> on the new set leaves 5 absent.
\<close>

theorem bitset_add_sets_and_tests:
  fixes self :: "'w::len word BitSet" and v n :: "'w word"
  assumes len: "8 \<le> LENGTH('w)"
  shows "(within_capacity self v \<longrightarrow>
           (\<exists>self'. bitset_add self v = Some (bit_of_value self v, self') \<and>
              bit_of_value self' v \<and>
              (\<forall>u. 0 \<le> sint u \<and> u \<noteq> v \<longrightarrow> bit_of_value self' u = bit_of_value self u))) \<and>
         (5 \<le> sint n \<longrightarrow>
           (\<exists>s1 s2 t1. bitset_add (new_BitSet n) 5 = Some (False, s1) \<and>
              bitset_add s1 5 = Some (True, s1) \<and>
              \<not> bit_of_value s1 0 \<and>
              bitset_add s1 0 = Some (False, s2) \<and> bit_of_value s2 5 \<and> bit_of_value s2 0 \<and>
              bitset_add (new_BitSet n) 0 = Some (False, t1) \<and> \<not> bit_of_value t1 5))"
proof (intro conjI impI)
  assume cap: "within_capacity self v"
  then have v0: "0 \<le> sint v" by (simp add: within_capacity_def)
  from bitset_add_result [OF len cap] obtain self' where
    run: "bitset_add self v = Some (bit_of_value self v, self')" and
    mem: "\<And>u. 0 \<le> sint u \<Longrightarrow> bit_of_value self' u = (u = v \<or> bit_of_value self u)"
    by blast
  have "bit_of_value self' v" using mem [OF v0] by simp
  moreover have "\<forall>u. 0 \<le> sint u \<and> u \<noteq> v \<longrightarrow> bit_of_value self' u = bit_of_value self u"
    using mem by simp
  ultimately show "\<exists>self'. bitset_add self v = Some (bit_of_value self v, self') \<and>
      bit_of_value self' v \<and>
      (\<forall>u. 0 \<le> sint u \<and> u \<noteq> v \<longrightarrow> bit_of_value self' u = bit_of_value self u)"
    using run by blast
next
  assume n5: "5 \<le> sint n"
  have s5: "sint (5 :: 'w word) = 5" by (rule sint_five [OF len])
  then have ne: "(0 :: 'w word) \<noteq> 5" by (metis sint_0 zero_neq_numeral)
  have five0: "0 \<le> sint (5 :: 'w word)" and fiven: "sint (5 :: 'w word) \<le> sint n"
    and zero0: "0 \<le> sint (0 :: 'w word)" and zeron: "sint (0 :: 'w word) \<le> sint n"
    using s5 n5 by simp_all
  let ?f = "new_BitSet n"
  note c5 = new_BitSet_fresh [OF len five0 fiven]
  note c0 = new_BitSet_fresh [OF len zero0 zeron]
  from bitset_add_result [OF len c5(1)] c5(2) obtain s1 where
    run1: "bitset_add ?f 5 = Some (False, s1)" and
    len1: "length (bits s1) = length (bits ?f)" and
    mem1: "\<And>u. 0 \<le> sint u \<Longrightarrow> bit_of_value s1 u = (u = 5 \<or> bit_of_value ?f u)"
    by auto
  have cap1: "within_capacity s1 5" "within_capacity s1 0"
    using c5(1) c0(1) len1 by (simp_all add: within_capacity_def)
  have in1: "bit_of_value s1 5" using mem1 [OF five0] by simp
  have out1: "\<not> bit_of_value s1 0" using mem1 [OF zero0] c0(2) ne by simp
  from bitset_add_result [OF len cap1(1)] in1 obtain s1' where
    run2: "bitset_add s1 5 = Some (True, s1')" by auto
  have same: "s1' = s1"
    using run2 by (rule bitset_add_True_same)
  from bitset_add_result [OF len cap1(2)] out1 obtain s2 where
    run3: "bitset_add s1 0 = Some (False, s2)" and
    mem2: "\<And>u. 0 \<le> sint u \<Longrightarrow> bit_of_value s2 u = (u = 0 \<or> bit_of_value s1 u)"
    by auto
  have in2: "bit_of_value s2 5" "bit_of_value s2 0"
    using mem2 [OF five0] mem2 [OF zero0] in1 by simp_all
  from bitset_add_result [OF len c0(1)] c0(2) obtain t1 where
    run4: "bitset_add ?f 0 = Some (False, t1)" and
    mem4: "\<And>u. 0 \<le> sint u \<Longrightarrow> bit_of_value t1 u = (u = 0 \<or> bit_of_value ?f u)"
    by auto
  have out4: "\<not> bit_of_value t1 5" using mem4 [OF five0] c5(2) ne by simp
  show "\<exists>s1 s2 t1. bitset_add (new_BitSet n) 5 = Some (False, s1) \<and>
      bitset_add s1 5 = Some (True, s1) \<and> \<not> bit_of_value s1 0 \<and>
      bitset_add s1 0 = Some (False, s2) \<and> bit_of_value s2 5 \<and> bit_of_value s2 0 \<and>
      bitset_add (new_BitSet n) 0 = Some (False, t1) \<and> \<not> bit_of_value t1 5"
    using run1 run2 same out1 run3 in2 run4 out4 by blast
qed

text \<open>
  A set of 64-bit words with capacity hint 10 has two words. \<open>add(5)\<close> sets bit 5 of
  the first (the word becomes 32), \<open>add(0)\<close> bit 0 (the word becomes 33).
\<close>

theorem bitset_add_sets_and_tests_witness:
  "8 \<le> LENGTH(64) \<and> within_capacity (new_BitSet (10 :: 64 word)) 5 \<and> 5 \<le> sint (10 :: 64 word) \<and>
   bitset_add (new_BitSet (10 :: 64 word)) 5 = Some (False, \<lparr>bits = [32, 0]\<rparr>) \<and>
   bitset_add \<lparr>bits = [32, 0 :: 64 word]\<rparr> 5 = Some (True, \<lparr>bits = [32, 0]\<rparr>) \<and>
   bitset_add \<lparr>bits = [32, 0 :: 64 word]\<rparr> 0 = Some (False, \<lparr>bits = [33, 0]\<rparr>) \<and>
   bit_of_value \<lparr>bits = [33, 0 :: 64 word]\<rparr> 5 \<and> bit_of_value \<lparr>bits = [33, 0 :: 64 word]\<rparr> 0 \<and>
   (\<exists>s1. bitset_add (new_BitSet (10 :: 64 word)) 5 = Some (False, s1) \<and>
      bitset_add s1 5 = Some (True, s1))"
proof -
  have len: "8 \<le> LENGTH(64)" by simp
  have cap: "within_capacity (new_BitSet (10 :: 64 word)) 5"
    by (simp add: within_capacity_def new_BitSet_def sizeof_INT_T_def)
  have n5: "5 \<le> sint (10 :: 64 word)" by simp
  have fresh: "new_BitSet (10 :: 64 word) = \<lparr>bits = [0, 0]\<rparr>"
    by (simp add: new_BitSet_def sizeof_INT_T_def numeral_2_eq_2)
  have ev: "bitset_add (new_BitSet (10 :: 64 word)) 5 = Some (False, \<lparr>bits = [32, 0]\<rparr>)"
    "bitset_add \<lparr>bits = [32, 0 :: 64 word]\<rparr> 5 = Some (True, \<lparr>bits = [32, 0]\<rparr>)"
    "bitset_add \<lparr>bits = [32, 0 :: 64 word]\<rparr> 0 = Some (False, \<lparr>bits = [33, 0]\<rparr>)"
    "bit_of_value \<lparr>bits = [33, 0 :: 64 word]\<rparr> 5" "bit_of_value \<lparr>bits = [33, 0 :: 64 word]\<rparr> 0"
    by (simp_all add: fresh bitset_add_def bit_of_value_def sizeof_INT_T_def Let_def)
  from bitset_add_sets_and_tests [OF len, of "new_BitSet 10" 5 10] n5
  have "\<exists>s1. bitset_add (new_BitSet (10 :: 64 word)) 5 = Some (False, s1) \<and>
      bitset_add s1 5 = Some (True, s1)" by blast
  with len cap n5 ev show ?thesis by simp
qed

subsection \<open>The size of the buffer\<close>

lemma new_BitSet_length:
  fixes n :: "'w::len word"
  assumes "0 \<le> sint n"
  shows "length (bits (new_BitSet n)) = nat (sint n) div sizeof_INT_T n + 1"
proof -
  have "sint n div int (sizeof_INT_T n) = int (nat (sint n) div sizeof_INT_T n)"
    using assms by (simp add: zdiv_int)
  then show ?thesis by (simp add: new_BitSet_def)
qed

text \<open>
  Claim C7, as the code has it. For a capacity hint \<open>n \<ge> 0\<close> the constructor
  allocates \<open>n div sizeof(INT_T) + 1\<close> words, the quotient rounded down and the divisor
  the size of a storage word in bytes (an eighth of its width in bits), and every word
  is zero. \<^verbatim>\<open>bitset_add\<close> divides by the same \<^verbatim>\<open>sizeof(INT_T)\<close>, so this buffer has
  room for every value up to the hint (\<open>new_BitSet_fresh\<close>).
\<close>

theorem new_BitSet_words:
  fixes n :: "'w::len word"
  assumes "0 \<le> sint n"
  shows "length (bits (new_BitSet n)) = nat (sint n) div (LENGTH('w) div 8) + 1 \<and>
         bits (new_BitSet n) = replicate (nat (sint n) div (LENGTH('w) div 8) + 1) 0"
  using new_BitSet_length [OF assms] by (simp add: new_BitSet_def sizeof_INT_T_def)

theorem new_BitSet_words_witness:
  "0 \<le> sint (16 :: 64 word) \<and> length (bits (new_BitSet (16 :: 64 word))) = 3 \<and>
   bits (new_BitSet (16 :: 64 word)) = [0, 0, 0]"
  using new_BitSet_words [of "16 :: 64 word"] by (simp add: numeral_3_eq_3)

text \<open>
  The claim as the specification words it, \<open>ceil(max_element / word_bit_width) + 1\<close>
  words, fails: for hint 16 and 64-bit words it gives 2 words where the constructor
  allocates 3, and for hint 8 and 32-bit words 2 where the constructor allocates 3.
\<close>

theorem new_BitSet_words_counterexample:
  "length (bits (new_BitSet (16 :: 64 word))) \<noteq>
     spec_bitset_words (nat (sint (16 :: 64 word))) LENGTH(64) \<and>
   length (bits (new_BitSet (8 :: 32 word))) \<noteq>
     spec_bitset_words (nat (sint (8 :: 32 word))) LENGTH(32)"
  by (simp add: new_BitSet_def sizeof_INT_T_def spec_bitset_words_def)

section \<open>Properties of the vector and matrix operations\<close>

lemmas put_defs = put_x_def put_y_def put_a_def put_b_def put_c_def put_d_def

lemmas vector_self_defs =
  v_neg_s_def v_vadd_s_def v_vsub_s_def v_vmul_s_def v_vdiv_s_def v_sadd_s_def v_ssub_s_def
  v_smul_s_def v_sdiv_s_def v_matmul_s_def rot_s_def

lemmas vector_copy_defs =
  v_neg_c_def v_vadd_c_def v_vsub_c_def v_vmul_c_def v_vdiv_c_def v_sadd_c_def v_ssub_c_def
  v_smul_c_def v_sdiv_c_def v_matmul_c_def rot_c_def

lemmas matrix_self_defs =
  m_neg_s_def m_madd_s_def m_msub_s_def m_mmul_s_def m_mdiv_s_def m_sadd_s_def m_ssub_s_def
  m_smul_s_def m_sdiv_s_def m_matmul_s_def m_transpose_s_def

lemmas matrix_copy_defs =
  m_neg_c_def m_madd_c_def m_msub_c_def m_mmul_c_def m_mdiv_c_def m_sadd_c_def m_ssub_c_def
  m_smul_c_def m_sdiv_c_def m_matmul_c_def m_transpose_c_def

text \<open>Assigning every component of a struct leaves nothing of its old value.\<close>

lemma Vector2D_update_all: "r\<lparr>x := u, y := v\<rparr> = \<lparr>x = u, y = v\<rparr>"
  by (cases r) simp

lemma Matrix2x2_update_all:
  "r\<lparr>a := t, b := u, c := v, d := w\<rparr> = \<lparr>a = t, b = u, c = v, d = w\<rparr>"
  by (cases r) simp

subsection \<open>Receiver and store\<close>

lemma VSO_returns_self: "fst (VSO vop p h) = p"
  by (cases vop) (simp_all add: vector_self_defs Let_def)

lemma VSO_frame: "snd (VSO vop p h) = h(p := snd (VSO vop p h) p)"
  by (cases vop) (simp_all add: vector_self_defs put_defs Let_def)

lemma VCO_store: "snd (VCO vop p h) = h"
  by (cases vop) (simp_all add: vector_copy_defs)

lemma MSO_returns_self: "fst (MSO mop q g) = q"
  by (cases mop) (simp_all add: matrix_self_defs Let_def)

lemma MSO_frame: "snd (MSO mop q g) = g(q := snd (MSO mop q g) q)"
  by (cases mop) (simp_all add: matrix_self_defs put_defs Let_def)

lemma MCO_store: "snd (MCO mop q g) = g"
  by (cases mop) (simp_all add: matrix_copy_defs)

text \<open>What every entry of the four tables computes, and where it puts it.\<close>

lemma Matrix2x2_update_b_c:
  "r\<lparr>b := u, c := v\<rparr> = \<lparr>a = a r, b = u, c = v, d = d r\<rparr>"
  by (cases r) simp

lemma VSO_values:
  "VSO V_neg p h = (p, h(p := \<lparr>x = - x (h p), y = - y (h p)\<rparr>))"
  "VSO (V_vadd w) p h = (p, h(p := \<lparr>x = x (h p) + x w, y = y (h p) + y w\<rparr>))"
  "VSO (V_vsub w) p h = (p, h(p := \<lparr>x = x (h p) - x w, y = y (h p) - y w\<rparr>))"
  "VSO (V_vmul w) p h = (p, h(p := \<lparr>x = x (h p) * x w, y = y (h p) * y w\<rparr>))"
  "VSO (V_vdiv w) p h = (p, h(p := \<lparr>x = x (h p) / x w, y = y (h p) / y w\<rparr>))"
  "VSO (V_sadd s) p h = (p, h(p := \<lparr>x = x (h p) + s, y = y (h p) + s\<rparr>))"
  "VSO (V_ssub s) p h = (p, h(p := \<lparr>x = x (h p) - s, y = y (h p) - s\<rparr>))"
  "VSO (V_smul s) p h = (p, h(p := \<lparr>x = x (h p) * s, y = y (h p) * s\<rparr>))"
  "VSO (V_sdiv s) p h = (p, h(p := \<lparr>x = x (h p) / s, y = y (h p) / s\<rparr>))"
  "VSO (V_matmul m) p h = (p, h(p := \<lparr>x = x (h p) * a m + y (h p) * c m, y = x (h p) * b m + y (h p) * d m\<rparr>))"
  "VSO V_rot p h = (p, h(p := \<lparr>x = - y (h p), y = x (h p)\<rparr>))"
  by (simp_all add: vector_self_defs put_defs Let_def Vector2D_update_all)

lemma VCO_values:
  "VCO V_neg p h = (\<lparr>x = - x (h p), y = - y (h p)\<rparr>, h)"
  "VCO (V_vadd w) p h = (\<lparr>x = x (h p) + x w, y = y (h p) + y w\<rparr>, h)"
  "VCO (V_vsub w) p h = (\<lparr>x = x (h p) - x w, y = y (h p) - y w\<rparr>, h)"
  "VCO (V_vmul w) p h = (\<lparr>x = x (h p) * x w, y = y (h p) * y w\<rparr>, h)"
  "VCO (V_vdiv w) p h = (\<lparr>x = x (h p) / x w, y = y (h p) / y w\<rparr>, h)"
  "VCO (V_sadd s) p h = (\<lparr>x = x (h p) + s, y = y (h p) + s\<rparr>, h)"
  "VCO (V_ssub s) p h = (\<lparr>x = x (h p) + s, y = y (h p) + s\<rparr>, h)"
  "VCO (V_smul s) p h = (\<lparr>x = x (h p) * s, y = y (h p) * s\<rparr>, h)"
  "VCO (V_sdiv s) p h = (\<lparr>x = x (h p) / s, y = y (h p) / s\<rparr>, h)"
  "VCO (V_matmul m) p h = (\<lparr>x = x (h p) * a m + y (h p) * c m, y = x (h p) * b m + y (h p) * d m\<rparr>, h)"
  "VCO V_rot p h = (\<lparr>x = - y (h p), y = x (h p)\<rparr>, h)"
  by (simp_all add: vector_copy_defs new_Vector2D_def)

lemma MSO_values:
  "MSO M_neg q g =
     (q, g(q := \<lparr>a = - a (g q), b = - b (g q),
        c = - c (g q), d = - d (g q)\<rparr>))"
  "MSO (M_madd m) q g =
     (q, g(q := \<lparr>a = a (g q) + a m, b = b (g q) + b m,
        c = c (g q) + c m, d = d (g q) + d m\<rparr>))"
  "MSO (M_msub m) q g =
     (q, g(q := \<lparr>a = a (g q) - a m, b = b (g q) - b m,
        c = c (g q) - c m, d = d (g q) - d m\<rparr>))"
  "MSO (M_mmul m) q g =
     (q, g(q := \<lparr>a = a (g q) * a m, b = b (g q) * b m,
        c = c (g q) * c m, d = d (g q) * d m\<rparr>))"
  "MSO (M_mdiv m) q g =
     (q, g(q := \<lparr>a = a (g q) / a m, b = b (g q) / b m,
        c = c (g q) / c m, d = d (g q) / d m\<rparr>))"
  "MSO (M_sadd s) q g =
     (q, g(q := \<lparr>a = a (g q) + s, b = b (g q) + s,
        c = c (g q) + s, d = d (g q) + s\<rparr>))"
  "MSO (M_ssub s) q g =
     (q, g(q := \<lparr>a = a (g q) - s, b = b (g q) - s,
        c = c (g q) - s, d = d (g q) - s\<rparr>))"
  "MSO (M_smul s) q g =
     (q, g(q := \<lparr>a = a (g q) * s, b = b (g q) * s,
        c = c (g q) * s, d = d (g q) * s\<rparr>))"
  "MSO (M_sdiv s) q g =
     (q, g(q := \<lparr>a = a (g q) / s, b = b (g q) / s,
        c = c (g q) / s, d = d (g q) / s\<rparr>))"
  "MSO (M_matmul m) q g =
     (q, g(q := \<lparr>a = a (g q) * a m + b (g q) * c m, b = a (g q) * b m + b (g q) * d m,
        c = c (g q) * a m + d (g q) * c m, d = c (g q) * b m + d (g q) * d m\<rparr>))"
  "MSO M_T q g =
     (q, g(q := \<lparr>a = a (g q), b = c (g q),
        c = b (g q), d = d (g q)\<rparr>))"
  by (simp_all add: matrix_self_defs put_defs Let_def Matrix2x2_update_all
      Matrix2x2_update_b_c)

lemma MCO_values:
  "MCO M_neg q g =
     (\<lparr>a = - a (g q), b = - b (g q),
        c = - c (g q), d = - d (g q)\<rparr>, g)"
  "MCO (M_madd m) q g =
     (\<lparr>a = a (g q) + a m, b = b (g q) + b m,
        c = c (g q) + c m, d = d (g q) + d m\<rparr>, g)"
  "MCO (M_msub m) q g =
     (\<lparr>a = a (g q) - a m, b = b (g q) - b m,
        c = c (g q) - c m, d = d (g q) - d m\<rparr>, g)"
  "MCO (M_mmul m) q g =
     (\<lparr>a = a (g q) * a m, b = b (g q) * b m,
        c = c (g q) * c m, d = d (g q) * d m\<rparr>, g)"
  "MCO (M_mdiv m) q g =
     (\<lparr>a = a (g q) / a m, b = b (g q) / b m,
        c = c (g q) / c m, d = d (g q) / d m\<rparr>, g)"
  "MCO (M_sadd s) q g =
     (\<lparr>a = a (g q) + s, b = b (g q) + s,
        c = c (g q) + s, d = d (g q) + s\<rparr>, g)"
  "MCO (M_ssub s) q g =
     (\<lparr>a = a (g q) - s, b = b (g q) - s,
        c = c (g q) - s, d = d (g q) - s\<rparr>, g)"
  "MCO (M_smul s) q g =
     (\<lparr>a = a (g q) * s, b = b (g q) * s,
        c = c (g q) * s, d = d (g q) * s\<rparr>, g)"
  "MCO (M_sdiv s) q g =
     (\<lparr>a = a (g q) / s, b = b (g q) / s,
        c = c (g q) / s, d = d (g q) / s\<rparr>, g)"
  "MCO (M_matmul m) q g =
     (\<lparr>a = a (g q) * a m + b (g q) * c m, b = a (g q) * b m + b (g q) * d m,
        c = c (g q) * a m + d (g q) * c m, d = c (g q) * b m + d (g q) * d m\<rparr>, g)"
  "MCO M_T q g =
     (\<lparr>a = a (g q), b = c (g q),
        c = b (g q), d = d (g q)\<rparr>, g)"
  by (simp_all add: matrix_copy_defs new_Matrix2x2_def)

text \<open>
  Claim C5. For every operation of the tables, with any operand, receiver \<open>p\<close> and
  store: the self variant returns the pointer \<open>p\<close> it was given, and the store it
  leaves is the old one but for the value at \<open>p\<close>; the copy variant returns a struct by
  value and leaves the whole store, the receiver included, as it was. Entry by entry:
  the self variant writes the result of the operation into the components of the
  receiver, and the copy variant returns the result built from the components it read.
  Negation is the first of them: the self variant leaves \<open>(-x, -y)\<close> at \<open>p\<close> and returns
  \<open>p\<close>, the copy variant returns \<open>(-x, -y)\<close> and the same store.
\<close>

theorem self_in_place_copy_untouched:
  "fst (VSO vop p h) = p \<and>
   snd (VSO vop p h) = h(p := snd (VSO vop p h) p) \<and>
   snd (VCO vop p h) = h \<and>
   fst (MSO mop q g) = q \<and>
   snd (MSO mop q g) = g(q := snd (MSO mop q g) q) \<and>
   snd (MCO mop q g) = g \<and>
   VSO V_neg p h = (p, h(p := \<lparr>x = - x (h p), y = - y (h p)\<rparr>)) \<and>
   VSO (V_vadd w) p h = (p, h(p := \<lparr>x = x (h p) + x w, y = y (h p) + y w\<rparr>)) \<and>
   VSO (V_vsub w) p h = (p, h(p := \<lparr>x = x (h p) - x w, y = y (h p) - y w\<rparr>)) \<and>
   VSO (V_vmul w) p h = (p, h(p := \<lparr>x = x (h p) * x w, y = y (h p) * y w\<rparr>)) \<and>
   VSO (V_vdiv w) p h = (p, h(p := \<lparr>x = x (h p) / x w, y = y (h p) / y w\<rparr>)) \<and>
   VSO (V_sadd s) p h = (p, h(p := \<lparr>x = x (h p) + s, y = y (h p) + s\<rparr>)) \<and>
   VSO (V_ssub s) p h = (p, h(p := \<lparr>x = x (h p) - s, y = y (h p) - s\<rparr>)) \<and>
   VSO (V_smul s) p h = (p, h(p := \<lparr>x = x (h p) * s, y = y (h p) * s\<rparr>)) \<and>
   VSO (V_sdiv s) p h = (p, h(p := \<lparr>x = x (h p) / s, y = y (h p) / s\<rparr>)) \<and>
   VSO (V_matmul m) p h = (p, h(p := \<lparr>x = x (h p) * a m + y (h p) * c m, y = x (h p) * b m + y (h p) * d m\<rparr>)) \<and>
   VSO V_rot p h = (p, h(p := \<lparr>x = - y (h p), y = x (h p)\<rparr>)) \<and>
   VCO V_neg p h = (\<lparr>x = - x (h p), y = - y (h p)\<rparr>, h) \<and>
   VCO (V_vadd w) p h = (\<lparr>x = x (h p) + x w, y = y (h p) + y w\<rparr>, h) \<and>
   VCO (V_vsub w) p h = (\<lparr>x = x (h p) - x w, y = y (h p) - y w\<rparr>, h) \<and>
   VCO (V_vmul w) p h = (\<lparr>x = x (h p) * x w, y = y (h p) * y w\<rparr>, h) \<and>
   VCO (V_vdiv w) p h = (\<lparr>x = x (h p) / x w, y = y (h p) / y w\<rparr>, h) \<and>
   VCO (V_sadd s) p h = (\<lparr>x = x (h p) + s, y = y (h p) + s\<rparr>, h) \<and>
   VCO (V_ssub s) p h = (\<lparr>x = x (h p) + s, y = y (h p) + s\<rparr>, h) \<and>
   VCO (V_smul s) p h = (\<lparr>x = x (h p) * s, y = y (h p) * s\<rparr>, h) \<and>
   VCO (V_sdiv s) p h = (\<lparr>x = x (h p) / s, y = y (h p) / s\<rparr>, h) \<and>
   VCO (V_matmul m) p h = (\<lparr>x = x (h p) * a m + y (h p) * c m, y = x (h p) * b m + y (h p) * d m\<rparr>, h) \<and>
   VCO V_rot p h = (\<lparr>x = - y (h p), y = x (h p)\<rparr>, h) \<and>
   MSO M_neg q g =
     (q, g(q := \<lparr>a = - a (g q), b = - b (g q),
        c = - c (g q), d = - d (g q)\<rparr>)) \<and>
   MSO (M_madd m) q g =
     (q, g(q := \<lparr>a = a (g q) + a m, b = b (g q) + b m,
        c = c (g q) + c m, d = d (g q) + d m\<rparr>)) \<and>
   MSO (M_msub m) q g =
     (q, g(q := \<lparr>a = a (g q) - a m, b = b (g q) - b m,
        c = c (g q) - c m, d = d (g q) - d m\<rparr>)) \<and>
   MSO (M_mmul m) q g =
     (q, g(q := \<lparr>a = a (g q) * a m, b = b (g q) * b m,
        c = c (g q) * c m, d = d (g q) * d m\<rparr>)) \<and>
   MSO (M_mdiv m) q g =
     (q, g(q := \<lparr>a = a (g q) / a m, b = b (g q) / b m,
        c = c (g q) / c m, d = d (g q) / d m\<rparr>)) \<and>
   MSO (M_sadd s) q g =
     (q, g(q := \<lparr>a = a (g q) + s, b = b (g q) + s,
        c = c (g q) + s, d = d (g q) + s\<rparr>)) \<and>
   MSO (M_ssub s) q g =
     (q, g(q := \<lparr>a = a (g q) - s, b = b (g q) - s,
        c = c (g q) - s, d = d (g q) - s\<rparr>)) \<and>
   MSO (M_smul s) q g =
     (q, g(q := \<lparr>a = a (g q) * s, b = b (g q) * s,
        c = c (g q) * s, d = d (g q) * s\<rparr>)) \<and>
   MSO (M_sdiv s) q g =
     (q, g(q := \<lparr>a = a (g q) / s, b = b (g q) / s,
        c = c (g q) / s, d = d (g q) / s\<rparr>)) \<and>
   MSO (M_matmul m) q g =
     (q, g(q := \<lparr>a = a (g q) * a m + b (g q) * c m, b = a (g q) * b m + b (g q) * d m,
        c = c (g q) * a m + d (g q) * c m, d = c (g q) * b m + d (g q) * d m\<rparr>)) \<and>
   MSO M_T q g =
     (q, g(q := \<lparr>a = a (g q), b = c (g q),
        c = b (g q), d = d (g q)\<rparr>)) \<and>
   MCO M_neg q g =
     (\<lparr>a = - a (g q), b = - b (g q),
        c = - c (g q), d = - d (g q)\<rparr>, g) \<and>
   MCO (M_madd m) q g =
     (\<lparr>a = a (g q) + a m, b = b (g q) + b m,
        c = c (g q) + c m, d = d (g q) + d m\<rparr>, g) \<and>
   MCO (M_msub m) q g =
     (\<lparr>a = a (g q) - a m, b = b (g q) - b m,
        c = c (g q) - c m, d = d (g q) - d m\<rparr>, g) \<and>
   MCO (M_mmul m) q g =
     (\<lparr>a = a (g q) * a m, b = b (g q) * b m,
        c = c (g q) * c m, d = d (g q) * d m\<rparr>, g) \<and>
   MCO (M_mdiv m) q g =
     (\<lparr>a = a (g q) / a m, b = b (g q) / b m,
        c = c (g q) / c m, d = d (g q) / d m\<rparr>, g) \<and>
   MCO (M_sadd s) q g =
     (\<lparr>a = a (g q) + s, b = b (g q) + s,
        c = c (g q) + s, d = d (g q) + s\<rparr>, g) \<and>
   MCO (M_ssub s) q g =
     (\<lparr>a = a (g q) - s, b = b (g q) - s,
        c = c (g q) - s, d = d (g q) - s\<rparr>, g) \<and>
   MCO (M_smul s) q g =
     (\<lparr>a = a (g q) * s, b = b (g q) * s,
        c = c (g q) * s, d = d (g q) * s\<rparr>, g) \<and>
   MCO (M_sdiv s) q g =
     (\<lparr>a = a (g q) / s, b = b (g q) / s,
        c = c (g q) / s, d = d (g q) / s\<rparr>, g) \<and>
   MCO (M_matmul m) q g =
     (\<lparr>a = a (g q) * a m + b (g q) * c m, b = a (g q) * b m + b (g q) * d m,
        c = c (g q) * a m + d (g q) * c m, d = c (g q) * b m + d (g q) * d m\<rparr>, g) \<and>
   MCO M_T q g =
     (\<lparr>a = a (g q), b = c (g q),
        c = b (g q), d = d (g q)\<rparr>, g)"
  by (intro conjI)
    (rule VSO_returns_self VSO_frame VCO_store MSO_returns_self MSO_frame MCO_store
      VSO_values VCO_values MSO_values MCO_values)+

subsection \<open>Scalar subtraction of a vector\<close>

text \<open>
  Claim C1. The \<^verbatim>\<open>ssub\<close> entry of the self table leaves \<open>(x - s, y - s)\<close> in the
  receiver; the \<^verbatim>\<open>ssub\<close> entry of the copy table returns \<open>(x + s, y + s)\<close>. The scalar
  goes to both components in each.
\<close>

theorem v_ssub_self_subtracts_copy_adds:
  "VSO (V_ssub s) p h = (p, h(p := \<lparr>x = x (h p) - s, y = y (h p) - s\<rparr>)) \<and>
   VCO (V_ssub s) p h = (\<lparr>x = x (h p) + s, y = y (h p) + s\<rparr>, h) \<and>
   v_ssub_s p s h = (p, h(p := \<lparr>x = x (h p) - s, y = y (h p) - s\<rparr>)) \<and>
   v_ssub_c p s h = (\<lparr>x = x (h p) + s, y = y (h p) + s\<rparr>, h)"
  by (simp add: v_ssub_s_def v_ssub_c_def put_defs new_Vector2D_def Let_def Vector2D_update_all)

text \<open>On the vector \<open>(5, 7)\<close> and the scalar 2 the two variants give different vectors.\<close>

lemma v_ssub_variants_differ:
  "snd (v_ssub_s 0 2 (\<lambda>p. \<lparr>x = 5, y = 7 :: real\<rparr>)) 0 = \<lparr>x = 3, y = 5\<rparr>"
  "fst (v_ssub_c 0 2 (\<lambda>p. \<lparr>x = 5, y = 7 :: real\<rparr>)) = \<lparr>x = 7, y = 9\<rparr>"
  by (simp_all add: v_ssub_s_def v_ssub_c_def put_defs new_Vector2D_def Let_def)

subsection \<open>Matrix product and transpose\<close>

text \<open>
  Claim C6. The \<^verbatim>\<open>matmul\<close> entry of both matrix tables computes the product of the
  receiver \<open>(a, b, c, d)\<close> with the operand \<open>(a', b', c', d')\<close>, rows by columns:
  \<open>(a*a' + b*c', a*b' + b*d', c*a' + d*c', c*b' + d*d')\<close>. The self variant leaves it in
  the receiver, the copy variant returns it.
\<close>

theorem matmul_is_matrix_product:
  "snd (MSO (M_matmul m) q g) q =
     \<lparr>a = a (g q) * a m + b (g q) * c m, b = a (g q) * b m + b (g q) * d m,
      c = c (g q) * a m + d (g q) * c m, d = c (g q) * b m + d (g q) * d m\<rparr> \<and>
   fst (MCO (M_matmul m) q g) =
     \<lparr>a = a (g q) * a m + b (g q) * c m, b = a (g q) * b m + b (g q) * d m,
      c = c (g q) * a m + d (g q) * c m, d = c (g q) * b m + d (g q) * d m\<rparr>"
  by (simp add: m_matmul_s_def m_matmul_c_def put_defs new_Matrix2x2_def Let_def
      Matrix2x2_update_all)

text \<open>The product of two matrices of numbers, beside their element-wise product.\<close>

lemma matmul_not_elementwise:
  "fst (m_matmul_c 0 \<lparr>a = 5, b = 6, c = 7, d = 8\<rparr> (\<lambda>p. \<lparr>a = 1, b = 2, c = 3, d = 4 :: real\<rparr>)) =
     \<lparr>a = 19, b = 22, c = 43, d = 50\<rparr>"
  "fst (m_mmul_c 0 \<lparr>a = 5, b = 6, c = 7, d = 8\<rparr> (\<lambda>p. \<lparr>a = 1, b = 2, c = 3, d = 4 :: real\<rparr>)) =
     \<lparr>a = 5, b = 12, c = 21, d = 32\<rparr>"
  by (simp_all add: m_matmul_c_def m_mmul_c_def new_Matrix2x2_def)

text \<open>
  Claim C8. Transposing twice gives the matrix back, component for component. Self
  variant: two calls on the same receiver leave the store as it was. Copy variant: the
  copy of a copy, wherever the first copy is kept, is the matrix the first call read.
\<close>

theorem transpose_twice:
  "snd (MSO M_T q (snd (MSO M_T q g))) = g \<and>
   fst (MCO M_T r (g(r := fst (MCO M_T q g)))) = g q \<and>
   snd (MSO M_T q g) q = \<lparr>a = a (g q), b = c (g q), c = b (g q), d = d (g q)\<rparr> \<and>
   fst (MCO M_T q g) = \<lparr>a = a (g q), b = c (g q), c = b (g q), d = d (g q)\<rparr>"
proof (intro conjI)
  show "snd (MSO M_T q (snd (MSO M_T q g))) = g"
    by (simp add: m_transpose_s_def put_defs Let_def)
  show "fst (MCO M_T r (g(r := fst (MCO M_T q g)))) = g q"
    by (simp add: m_transpose_c_def new_Matrix2x2_def)
  show "snd (MSO M_T q g) q = \<lparr>a = a (g q), b = c (g q), c = b (g q), d = d (g q)\<rparr>"
    by (cases "g q") (simp add: m_transpose_s_def put_defs Let_def)
  show "fst (MCO M_T q g) = \<lparr>a = a (g q), b = c (g q), c = b (g q), d = d (g q)\<rparr>"
    by (simp add: m_transpose_c_def new_Matrix2x2_def)
qed

subsection \<open>Dot product\<close>

text \<open>
  Claim C9. \<open>dot(v, w)\<close> is \<open>x1*x2 + y1*y2\<close>. It is the same in both orders of the two
  vectors whenever the multiplication of \<^verbatim>\<open>FLOAT_T\<close> is commutative, which is all the
  arithmetic the equation needs. Equality is that of the values computed.
\<close>

theorem dot_formula_commutes:
  fixes h :: "'f::{plus,times} vstore"
  shows "dot p w h = x (h p) * x w + y (h p) * y w \<and>
         ((\<forall>u v :: 'f. u * v = v * u) \<longrightarrow> dot p (h q) h = dot q (h p) h)"
proof (intro conjI impI)
  show "dot p w h = x (h p) * x w + y (h p) * y w" by (simp add: dot_def)
next
  assume comm: "\<forall>u v :: 'f. u * v = v * u"
  have "x (h p) * x (h q) = x (h q) * x (h p)" and "y (h p) * y (h q) = y (h q) * y (h p)"
    by (rule comm [rule_format])+
  then show "dot p (h q) h = dot q (h p) h" by (simp add: dot_def)
qed

text \<open>The vectors \<open>(1, 2)\<close> at address 0 and \<open>(3, 4)\<close> at address 1, over the reals.\<close>

theorem dot_formula_commutes_witness:
  "(\<forall>u v :: real. u * v = v * u) \<and>
   dot 0 \<lparr>x = 3, y = 4 :: real\<rparr>
     ((\<lambda>p. \<lparr>x = 0, y = 0\<rparr>)(0 := \<lparr>x = 1, y = 2\<rparr>, 1 := \<lparr>x = 3, y = 4\<rparr>)) = 11 \<and>
   dot 1 \<lparr>x = 1, y = 2 :: real\<rparr>
     ((\<lambda>p. \<lparr>x = 0, y = 0\<rparr>)(0 := \<lparr>x = 1, y = 2\<rparr>, 1 := \<lparr>x = 3, y = 4\<rparr>)) = 11"
  using dot_formula_commutes [of 0 "\<lparr>x = 3, y = 4 :: real\<rparr>"
      "(\<lambda>p. \<lparr>x = 0, y = 0\<rparr>)(0 := \<lparr>x = 1, y = 2\<rparr>, 1 := \<lparr>x = 3, y = 4\<rparr>)" 1]
  by (simp add: mult.commute)

subsection \<open>The two tables agree\<close>

lemma VCO_eq_VSO: "\<forall>s. vop \<noteq> V_ssub s \<Longrightarrow> fst (VCO vop p h) = snd (VSO vop p h) p"
  by (cases vop)
    (simp_all add: vector_self_defs vector_copy_defs put_defs new_Vector2D_def Let_def)

lemma MCO_eq_MSO: "fst (MCO mop q g) = snd (MSO mop q g) q"
  by (cases mop)
    (simp_all add: matrix_self_defs matrix_copy_defs put_defs new_Matrix2x2_def Let_def)

text \<open>
  Claim C10. For every entry of the vector tables other than \<^verbatim>\<open>ssub\<close>, and for every
  entry of the matrix tables, with any operand, receiver and store, the value the copy
  variant returns is the value the self variant leaves in its receiver.
\<close>

theorem copy_agrees_with_self:
  "((\<forall>s. vop \<noteq> V_ssub s) \<longrightarrow> fst (VCO vop p h) = snd (VSO vop p h) p) \<and>
   fst (MCO mop q g) = snd (MSO mop q g) q"
  using VCO_eq_VSO [of vop p h] MCO_eq_MSO [of mop q g] by blast

text \<open>Adding \<open>(3, 4)\<close> to \<open>(1, 2)\<close>, and multiplying two matrices, both ways.\<close>

theorem copy_agrees_with_self_witness:
  "(\<forall>s. V_vadd \<lparr>x = 3, y = 4 :: real\<rparr> \<noteq> V_ssub s) \<and>
   fst (VCO (V_vadd \<lparr>x = 3, y = 4 :: real\<rparr>) 0 (\<lambda>p. \<lparr>x = 1, y = 2\<rparr>)) = \<lparr>x = 4, y = 6\<rparr> \<and>
   snd (VSO (V_vadd \<lparr>x = 3, y = 4 :: real\<rparr>) 0 (\<lambda>p. \<lparr>x = 1, y = 2\<rparr>)) 0 = \<lparr>x = 4, y = 6\<rparr> \<and>
   fst (MCO (M_matmul \<lparr>a = 5, b = 6, c = 7, d = 8 :: real\<rparr>) 0
          (\<lambda>p. \<lparr>a = 1, b = 2, c = 3, d = 4\<rparr>)) = \<lparr>a = 19, b = 22, c = 43, d = 50\<rparr> \<and>
   snd (MSO (M_matmul \<lparr>a = 5, b = 6, c = 7, d = 8 :: real\<rparr>) 0
          (\<lambda>p. \<lparr>a = 1, b = 2, c = 3, d = 4\<rparr>)) 0 = \<lparr>a = 19, b = 22, c = 43, d = 50\<rparr>"
  using copy_agrees_with_self [of "V_vadd \<lparr>x = 3, y = 4 :: real\<rparr>" 0 "\<lambda>p. \<lparr>x = 1, y = 2\<rparr>"
      "M_matmul \<lparr>a = 5, b = 6, c = 7, d = 8 :: real\<rparr>" 0 "\<lambda>p. \<lparr>a = 1, b = 2, c = 3, d = 4\<rparr>"]
  by (simp add: v_vadd_c_def new_Vector2D_def m_matmul_c_def new_Matrix2x2_def)

end
